theory Spec2Isabelle
  imports Main "HOL-Library.AList" "HOL-Library.Word"
begin

section \<open>JavaScript values used by the plugin\<close>

text \<open>
  A JavaScript string is a sequence of UTF-16 code units. Program literals are ASCII and
  are written with \<open>utf16\<close>.
\<close>

type_synonym jsstring = "16 word list"

definition utf16 :: "string \<Rightarrow> jsstring" where
  "utf16 s = map of_char s"

text \<open>
  \<open>String.prototype.trim\<close> strips the code units of ECMAScript's WhiteSpace and
  LineTerminator productions from both ends: TAB, LF, VT, FF, CR, SP, NBSP, U+1680,
  U+2000..U+200A, LS, PS, U+202F, U+205F, U+3000 and U+FEFF.
\<close>

definition is_ws :: "16 word \<Rightarrow> bool" where
  "is_ws c \<longleftrightarrow>
     c \<in> {0x0009, 0x000A, 0x000B, 0x000C, 0x000D, 0x0020, 0x00A0, 0x1680,
          0x2028, 0x2029, 0x202F, 0x205F, 0x3000, 0xFEFF}
     \<or> (0x2000 \<le> c \<and> c \<le> 0x200A)"

definition trim :: "jsstring \<Rightarrow> jsstring" where
  "trim s = rev (dropWhile is_ws (rev (dropWhile is_ws s)))"

text \<open>
  The values that identifiers and message contents take: a string, or one of the two
  absent values. \<open>truthy\<close> is JavaScript's ToBoolean, \<open>property_key\<close> its conversion
  of a value to a property name (as in \<open>messageEdits[message.id]\<close>), and equality of
  \<open>val\<close> is strict equality (\<open>===\<close>).
\<close>

datatype val = Undefined | Null | Str jsstring

fun truthy :: "val \<Rightarrow> bool" where
  "truthy Undefined = False"
| "truthy Null = False"
| "truthy (Str s) = (s \<noteq> [])"

fun property_key :: "val \<Rightarrow> jsstring" where
  "property_key Undefined = utf16 ''undefined''"
| "property_key Null = utf16 ''null''"
| "property_key (Str s) = s"

text \<open>
  The names of the members of \<open>Object.prototype\<close> (ECMAScript, with its Annex B), which
  every object made by an object literal or a spread inherits. All are functions, but
  \<open>__proto__\<close>, an accessor whose getter returns the prototype object and whose setter
  ignores a value that is neither an object nor \<open>null\<close>.
\<close>

definition object_prototype_keys :: "jsstring list" where
  "object_prototype_keys =
     [utf16 ''constructor'', utf16 ''__defineGetter__'', utf16 ''__defineSetter__'',
      utf16 ''hasOwnProperty'', utf16 ''__lookupGetter__'', utf16 ''__lookupSetter__'',
      utf16 ''isPrototypeOf'', utf16 ''propertyIsEnumerable'', utf16 ''toString'',
      utf16 ''valueOf'', utf16 ''__proto__'', utf16 ''toLocaleString'']"

text \<open>
  What a read of \<open>messageEdits[key]\<close> yields, and what a \<open>content\<close> field holds: a
  primitive value, or the object found on \<open>Object.prototype\<close> under the given name. Such an
  object is truthy.
\<close>

datatype jsval = Plain val | Inherited jsstring

fun truthy_js :: "jsval \<Rightarrow> bool" where
  "truthy_js (Plain v) = truthy v"
| "truthy_js (Inherited k) = True"

section \<open>Messages and the override store\<close>

record user =
  user_id :: val

text \<open>
  A message object of the host. The plugin reads \<open>id\<close>, \<open>content\<close> and \<open>author\<close>: the three
  fields hold what these reads yield. \<open>uncopied\<close> lists the names of the properties of the
  object that an object spread does not copy: its own properties that are not enumerable,
  and the properties it has from its prototype chain (the methods and accessors of a
  class). The record's extension part is the rest: the other own enumerable properties.
\<close>

record message =
  msg_id :: val
  content :: jsval
  author :: "user option"
  uncopied :: "jsstring list"

text \<open>
  \<open>{...message}\<close>: a new plain object with the own enumerable properties of \<open>message\<close>. A
  read of a property that was not copied finds nothing.
\<close>

definition spread_message :: "'z message_scheme \<Rightarrow> 'z message_scheme" where
  "spread_message m =
     m\<lparr>msg_id := (if utf16 ''id'' \<in> set (uncopied m) then Undefined else msg_id m),
       content := (if utf16 ''content'' \<in> set (uncopied m) then Plain Undefined else content m),
       author := (if utf16 ''author'' \<in> set (uncopied m) then None else author m),
       uncopied := []\<rparr>"

text \<open>
  \<open>const messageEdits: { [messageId: string]: string } = {}\<close>: the own properties of the
  object, in insertion order. Assignment to a property is \<open>AList.update\<close>, the \<open>delete\<close>
  operator is \<open>AList.delete\<close>. The object's prototype is \<open>Object.prototype\<close>.
\<close>

type_synonym edits = "(jsstring \<times> jsstring) list"

text \<open>
  The expression \<open>messageEdits[message.id]\<close>: the own property of that name if there is
  one, else the member of \<open>Object.prototype\<close> of that name if there is one, else
  \<open>undefined\<close>.
\<close>

definition lookup_edit :: "edits \<Rightarrow> val \<Rightarrow> jsval" where
  "lookup_edit E i =
     (case map_of E (property_key i) of
        Some t \<Rightarrow> Plain (Str t)
      | None \<Rightarrow>
          if property_key i \<in> set object_prototype_keys then Inherited (property_key i)
          else Plain Undefined)"

text \<open>
  The assignment \<open>messageEdits[key] = text\<close>. Under the name \<open>__proto__\<close>, when the object
  has no own property of that name, the assignment calls the inherited setter, which
  ignores a string: nothing is stored. Every other member of \<open>Object.prototype\<close> is a
  writable data property, so the assignment makes an own property that shadows it.
\<close>

definition assign_edit :: "jsstring \<Rightarrow> jsstring \<Rightarrow> edits \<Rightarrow> edits" where
  "assign_edit key newContent E =
     (if key = utf16 ''__proto__'' \<and> map_of E key = None then E
      else AList.update key newContent E)"

text \<open>
  The \<open>onConfirm\<close> callback of the input alert (lines 66-73), for the message the menu was
  opened on. The logger calls and the empty \<open>runAfterInteractions\<close> callback do not touch
  the store.
\<close>

definition onConfirm :: "'z message_scheme \<Rightarrow> jsstring \<Rightarrow> edits \<Rightarrow> edits" where
  "onConfirm m newContent E =
     (if trim newContent = [] then AList.delete (property_key (msg_id m)) E
      else assign_edit (property_key (msg_id m)) newContent E)"

text \<open>The action of the "Remove Local Edit" button (lines 95-98).\<close>

definition remove_action :: "'z message_scheme \<Rightarrow> edits \<Rightarrow> edits" where
  "remove_action m E = AList.delete (property_key (msg_id m)) E"

text \<open>
  \<open>Object.keys(messageEdits).forEach(key => delete messageEdits[key])\<close>, the body of
  \<open>clearAllEdits\<close> and the last step of \<open>onUnload\<close>: the keys are listed first, then each
  is deleted in turn.
\<close>

definition clear_edits :: "edits \<Rightarrow> edits" where
  "clear_edits E = fold (\<lambda>key E'. AList.delete key E') (map fst E) E"

text \<open>\<open>Object.keys(messageEdits).length\<close>, the count that \<open>showLocalEdits\<close> reports.\<close>

definition edit_count :: "edits \<Rightarrow> nat" where
  "edit_count E = length (map fst E)"

section \<open>The render pre-hook\<close>

text \<open>
  The hook assigns \<open>this.props\<close> and builds two new objects, and the host may still hold
  the objects that were there before, so objects live in a store and are named by their
  address. A new object takes the next free address.
\<close>

type_synonym addr = nat

definition obj_at :: "'a list \<Rightarrow> addr \<Rightarrow> 'a option" where
  "obj_at h a = (if a < length h then Some (h ! a) else None)"

text \<open>
  The props object of the \<open>MessageContent\<close> component: its \<open>message\<close> property refers to a
  message object (or is absent). As for a message, \<open>props_uncopied\<close> names the properties
  that a spread does not copy, and the extension part is the other own enumerable
  properties.
\<close>

record render_props =
  message_ref :: "addr option"
  props_uncopied :: "jsstring list"

text \<open>\<open>{...this.props}\<close>, before the \<open>message\<close> property is set.\<close>

definition spread_props :: "'y render_props_scheme \<Rightarrow> 'y render_props_scheme" where
  "spread_props p = p\<lparr>props_uncopied := []\<rparr>"

text \<open>
  The component instance \<open>this\<close> with the two object stores: \<open>this_props\<close> is the value of
  \<open>this.props\<close>, a reference to a props object (or absent).
\<close>

record ('z, 'y) component =
  msg_heap :: "'z message_scheme list"
  props_heap :: "'y render_props_scheme list"
  this_props :: "addr option"

text \<open>The object \<open>this.props\<close>, and \<open>this.props?.message\<close>.\<close>

definition this_props_obj :: "('z, 'y) component \<Rightarrow> 'y render_props_scheme option" where
  "this_props_obj c = (case this_props c of None \<Rightarrow> None | Some pa \<Rightarrow> obj_at (props_heap c) pa)"

definition this_message :: "('z, 'y) component \<Rightarrow> 'z message_scheme option" where
  "this_message c =
     (case this_props_obj c of
        None \<Rightarrow> None
      | Some p \<Rightarrow> (case message_ref p of None \<Rightarrow> None | Some ma \<Rightarrow> obj_at (msg_heap c) ma))"

text \<open>
  The function given to \<open>before("render", MessageContent.prototype, ...)\<close> (lines 23-36).
  The two spreads copy the own enumerable properties of the message and of the props into
  new plain objects; \<open>this.props\<close> is pointed at the new props object.
\<close>

definition render_hook :: "edits \<Rightarrow> ('z, 'y) component \<Rightarrow> ('z, 'y) component" where
  "render_hook E c =
     (case this_props_obj c of
        None \<Rightarrow> c
      | Some p \<Rightarrow>
          (case this_message c of
             None \<Rightarrow> c
           | Some m \<Rightarrow>
               if truthy (msg_id m) \<and> truthy_js (lookup_edit E (msg_id m))
               then c\<lparr>msg_heap := msg_heap c
                        @ [(spread_message m)\<lparr>content := lookup_edit E (msg_id m)\<rparr>],
                      props_heap := props_heap c
                        @ [(spread_props p)\<lparr>message_ref := Some (length (msg_heap c))\<rparr>],
                      this_props := Some (length (props_heap c))\<rparr>
               else c))"

section \<open>The host\<close>

text \<open>
  What the host's lookups return: \<open>undefined\<close>, \<open>null\<close>, or an object (a module, a
  component class, an icon) with named properties.
\<close>

datatype hval = HUndefined | HNull | HObj "(string \<times> hval) list"

fun nullish :: "hval \<Rightarrow> bool" where
  "nullish HUndefined = True"
| "nullish HNull = True"
| "nullish (HObj ps) = False"

fun hprop :: "hval \<Rightarrow> string \<Rightarrow> hval" where
  "hprop (HObj ps) k = (case map_of ps k of None \<Rightarrow> HUndefined | Some v \<Rightarrow> v)"
| "hprop v k = HUndefined"

text \<open>The two lookup functions of \<open>@vendetta/metro\<close>, parameters of the model.\<close>

record host =
  findByProps :: "string list \<Rightarrow> hval"
  findByName :: "string \<Rightarrow> hval"

section \<open>The context-menu wrapper\<close>

text \<open>
  The two \<open>action\<close> closures of the buttons; each captures the message the menu was opened
  on. Running the first opens the input alert whose confirmation is \<open>onConfirm\<close>, running
  the second is \<open>remove_action\<close>.
\<close>

datatype 'z closure = EditAction "'z message_scheme" | RemoveAction "'z message_scheme"

record 'z button =
  button_id :: string
  label :: string
  icon :: hval
  destructive :: "bool option"
  action :: "'z closure"

text \<open>
  The value of \<open>props.children\<close> of a menu element: one value that is not an array (a
  primitive, an element of the host's, one of the plugin's buttons) or an array of them.
  A missing \<open>children\<close> property is \<open>Single (Prim Undefined)\<close>.
\<close>

datatype ('h, 'z) node = Prim val | Elem 'h | Btn "'z button"

datatype ('h, 'z) children = Single "('h, 'z) node" | Array "('h, 'z) node list"

fun truthy_children :: "('h, 'z) children \<Rightarrow> bool" where
  "truthy_children (Single (Prim v)) = truthy v"
| "truthy_children (Single n) = True"
| "truthy_children (Array ns) = True"

text \<open>\<open>Array.isArray(children) ? children : [children]\<close> (lines 103-105).\<close>

fun children_list :: "('h, 'z) children \<Rightarrow> ('h, 'z) node list" where
  "children_list (Array ns) = ns"
| "children_list (Single n) = [n]"

record ('h, 'z) element_props =
  children :: "('h, 'z) children"

text \<open>What the menu builder returns, when it is not nullish: \<open>props\<close> may be absent.\<close>

record ('h, 'z, 'p) element =
  props :: "('h, 'z, 'p) element_props_scheme option"

text \<open>The argument of the menu builder.\<close>

record 'z menu_props =
  message :: "'z message_scheme option"
  currentUserId :: val

text \<open>\<open>message.author?.id\<close>.\<close>

definition author_id :: "'z message_scheme \<Rightarrow> val" where
  "author_id m = (case author m of None \<Rightarrow> Undefined | Some a \<Rightarrow> user_id a)"

text \<open>\<open>const currentEdit = messageEdits[message.id] || message.content\<close> (line 59).\<close>

definition currentEdit :: "edits \<Rightarrow> 'z message_scheme \<Rightarrow> jsval" where
  "currentEdit E m =
     (if truthy_js (lookup_edit E (msg_id m)) then lookup_edit E (msg_id m) else content m)"

definition editButton :: "host \<Rightarrow> edits \<Rightarrow> 'z message_scheme \<Rightarrow> 'z button" where
  "editButton h E m =
     \<lparr>button_id = ''edit-locally'',
      label = (if truthy_js (lookup_edit E (msg_id m)) then ''Edit Local Copy'' else ''Edit Locally''),
      icon = findByName h ''PencilIcon'',
      destructive = None,
      action = EditAction m\<rparr>"

definition removeButton :: "host \<Rightarrow> edits \<Rightarrow> 'z message_scheme \<Rightarrow> 'z button option" where
  "removeButton h E m =
     (if truthy_js (lookup_edit E (msg_id m))
      then Some \<lparr>button_id = ''remove-local-edit'',
                 label = ''Remove Local Edit'',
                 icon = findByName h ''TrashIcon'',
                 destructive = Some True,
                 action = RemoveAction m\<rparr>
      else None)"

text \<open>
  The function the interceptor puts in \<open>args[1]\<close> (lines 48-117). \<open>menuComponent\<close> is the
  original builder; the result is the object the builder returned, with \<open>props.children\<close>
  assigned when the inner guard holds.
\<close>

definition menu_wrapper ::
  "host \<Rightarrow> edits \<Rightarrow> (('z, 'q) menu_props_scheme option \<Rightarrow> ('h, 'z, 'p, 'e) element_scheme option)
     \<Rightarrow> ('z, 'q) menu_props_scheme option \<Rightarrow> ('h, 'z, 'p, 'e) element_scheme option" where
  "menu_wrapper h E menuComponent ps =
     (let originalMenu = menuComponent ps in
      case ps of
        None \<Rightarrow> originalMenu
      | Some pr \<Rightarrow>
          (case message pr of
             None \<Rightarrow> originalMenu
           | Some m \<Rightarrow>
               if author_id m \<noteq> currentUserId pr then
                 (case originalMenu of
                    None \<Rightarrow> originalMenu
                  | Some menu \<Rightarrow>
                      (case props menu of
                         None \<Rightarrow> originalMenu
                       | Some ep \<Rightarrow>
                           if truthy_children (children ep) then
                             let cs = children_list (children ep);
                                 cs1 = cs @ [Btn (editButton h E m)];
                                 cs2 = (case removeButton h E m of
                                          Some rb \<Rightarrow> cs1 @ [Btn rb]
                                        | None \<Rightarrow> cs1)
                             in Some (menu\<lparr>props := Some (ep\<lparr>children := Array cs2\<rparr>)\<rparr>)
                           else originalMenu))
               else originalMenu))"

section \<open>The lifecycle\<close>

text \<open>
  An undo handle names the patch it reverses: the patched method and its target. The
  properties the plugin puts on \<open>global\<close> are its two debug functions.
\<close>

datatype handle = Unpatch string hval

datatype gfun = ShowLocalEdits | ClearAllEdits

datatype error = TypeError

text \<open>
  The module's state (\<open>messageEdits\<close>, \<open>unpatchRender\<close>, \<open>unpatchContextMenu\<close>) together
  with what it changes in the host: the properties it sets on \<open>global\<close>, the patches that
  are installed, and the undo handles that have been called, in order.
\<close>

record plugin =
  messageEdits :: edits
  unpatchRender :: "handle option"
  unpatchContextMenu :: "handle option"
  global :: "(string \<times> gfun) list"
  patches :: "handle list"
  unpatched :: "handle list"

definition initial :: plugin where
  "initial = \<lparr>messageEdits = [], unpatchRender = None, unpatchContextMenu = None,
              global = [], patches = [], unpatched = []\<rparr>"

text \<open>
  Modelled from the spec: \<open>before\<close> of \<open>@vendetta/patcher\<close> is not in the repository's
  files. Section 6 of the spec: installing a hook on a method of a target returns an undo
  handle, and calling the handle reverses that one hook.
\<close>

definition before :: "string \<Rightarrow> hval \<Rightarrow> plugin \<Rightarrow> handle \<times> plugin" where
  "before name target s =
     (Unpatch name target, s\<lparr>patches := patches s @ [Unpatch name target]\<rparr>)"

definition call_handle :: "handle \<Rightarrow> plugin \<Rightarrow> plugin" where
  "call_handle u s = s\<lparr>patches := remove1 u (patches s), unpatched := unpatched s @ [u]\<rparr>"

text \<open>
  Lines 19-37: \<open>findByProps("MessageContent")?.MessageContent ?? findByName("MessageContent")\<close>,
  and the patch of \<open>render\<close> when the component was found.
\<close>

definition find_MessageContent :: "host \<Rightarrow> hval" where
  "find_MessageContent h =
     (let found = findByProps h [''MessageContent''];
          inner = (if nullish found then HUndefined else hprop found ''MessageContent'')
      in if nullish inner then findByName h ''MessageContent'' else inner)"

definition install_render :: "host \<Rightarrow> plugin \<Rightarrow> plugin" where
  "install_render h s =
     (let MessageContent = find_MessageContent h in
      if \<not> nullish MessageContent
      then (case before ''render'' (hprop MessageContent ''prototype'') s of
              (u, s') \<Rightarrow> s'\<lparr>unpatchRender := Some u\<rparr>)
      else s)"

text \<open>
  Lines 40-119. Line 40 destructures the result of the lookup,
  \<open>const { getByProps } = findByProps("openContextMenuLazy", "closeContextMenu")\<close>, which
  throws a TypeError when the result is \<open>undefined\<close> or \<open>null\<close>. Line 41 is
  \<open>getByProps ?? findByProps("openContextMenuLazy")\<close>.
\<close>

definition install_menu :: "host \<Rightarrow> plugin \<Rightarrow> error + plugin" where
  "install_menu h s =
     (let found = findByProps h [''openContextMenuLazy'', ''closeContextMenu''] in
      if nullish found then Inl TypeError
      else
        let getByProps = hprop found ''getByProps'';
            ContextMenuActions =
              (if nullish getByProps then findByProps h [''openContextMenuLazy''] else getByProps)
        in if \<not> nullish ContextMenuActions
           then (case before ''openContextMenuLazy'' ContextMenuActions s of
                   (u, s') \<Rightarrow> Inr (s'\<lparr>unpatchContextMenu := Some u\<rparr>))
           else Inr s)"

text \<open>Lines 122-132: the two assignments to properties of \<open>global\<close>.\<close>

definition register_debug :: "plugin \<Rightarrow> plugin" where
  "register_debug s =
     s\<lparr>global := AList.update ''clearAllEdits'' ClearAllEdits
                   (AList.update ''showLocalEdits'' ShowLocalEdits (global s))\<rparr>"

text \<open>
  The body of the \<open>try\<close> block of \<open>onLoad\<close>: an exception leaves it with the state reached
  so far. The \<open>catch\<close> clause logs the error and returns.
\<close>

definition onLoad_try :: "host \<Rightarrow> plugin \<Rightarrow> (error \<times> plugin) + plugin" where
  "onLoad_try h s =
     (let s1 = install_render h s in
      case install_menu h s1 of
        Inl e \<Rightarrow> Inl (e, s1)
      | Inr s2 \<Rightarrow> Inr (register_debug s2))"

definition onLoad :: "host \<Rightarrow> plugin \<Rightarrow> plugin" where
  "onLoad h s = (case onLoad_try h s of Inl (e, s') \<Rightarrow> s' | Inr s' \<Rightarrow> s')"

text \<open>Lines 142-164.\<close>

definition onUnload :: "plugin \<Rightarrow> plugin" where
  "onUnload s =
     (let s1 = (case unpatchRender s of
                  Some u \<Rightarrow> (call_handle u s)\<lparr>unpatchRender := None\<rparr>
                | None \<Rightarrow> s);
          s2 = (case unpatchContextMenu s1 of
                  Some u \<Rightarrow> (call_handle u s1)\<lparr>unpatchContextMenu := None\<rparr>
                | None \<Rightarrow> s1);
          s3 = s2\<lparr>global := AList.delete ''clearAllEdits''
                               (AList.delete ''showLocalEdits'' (global s2))\<rparr>
      in s3\<lparr>messageEdits := clear_edits (messageEdits s3)\<rparr>)"

text \<open>
  The bodies of the two debug functions: \<open>showLocalEdits\<close> returns the store (and logs its
  count), \<open>clearAllEdits\<close> empties it.
\<close>

definition showLocalEdits :: "plugin \<Rightarrow> edits \<times> plugin" where
  "showLocalEdits s = (messageEdits s, s)"

definition clearAllEdits :: "plugin \<Rightarrow> plugin" where
  "clearAllEdits s = s\<lparr>messageEdits := clear_edits (messageEdits s)\<rparr>"

text \<open>
  A call \<open>global.name()\<close> from outside the plugin: calling a property that is not there
  throws.
\<close>

definition invoke_global :: "string \<Rightarrow> plugin \<Rightarrow> error + plugin" where
  "invoke_global name s =
     (case map_of (global s) name of
        None \<Rightarrow> Inl TypeError
      | Some ShowLocalEdits \<Rightarrow> Inr (snd (showLocalEdits s))
      | Some ClearAllEdits \<Rightarrow> Inr (clearAllEdits s))"

section \<open>Sequences of operations\<close>

text \<open>
  The operations that change the store: the confirmation of the input alert and the remove
  action (each for the message its menu was opened on), \<open>clearAllEdits\<close>, and deactivation.
\<close>

datatype op = ConfirmEdit message jsstring | RemoveLocalEdit message | ClearAll | Deactivate

fun apply_op :: "op \<Rightarrow> plugin \<Rightarrow> plugin" where
  "apply_op (ConfirmEdit m t) s = s\<lparr>messageEdits := onConfirm m t (messageEdits s)\<rparr>"
| "apply_op (RemoveLocalEdit m) s = s\<lparr>messageEdits := remove_action m (messageEdits s)\<rparr>"
| "apply_op ClearAll s = clearAllEdits s"
| "apply_op Deactivate s = onUnload s"

definition run :: "op list \<Rightarrow> plugin" where
  "run ops = fold apply_op ops initial"

text \<open>No stored text is blank: the invariant of the store.\<close>

definition nonblank :: "edits \<Rightarrow> bool" where
  "nonblank E = list_all (\<lambda>p. trim (snd p) \<noteq> []) E"

text \<open>The undo handles a state holds, in the order in which \<open>onUnload\<close> looks at them.\<close>

definition stored_handles :: "plugin \<Rightarrow> handle list" where
  "stored_handles s =
     (case unpatchRender s of None \<Rightarrow> [] | Some u \<Rightarrow> [u])
     @ (case unpatchContextMenu s of None \<Rightarrow> [] | Some u \<Rightarrow> [u])"

section \<open>Scenario data\<close>

text \<open>
  The scenario of the specification: message \<open>m1\<close> written by user \<open>u2\<close>, seen by user
  \<open>u1\<close>; and a message of the viewer's own.
\<close>

definition m1 :: message where
  "m1 = \<lparr>msg_id = Str (utf16 ''m1''), content = Plain (Str (utf16 ''hi'')),
         author = Some \<lparr>user_id = Str (utf16 ''u2'')\<rparr>, uncopied = []\<rparr>"

definition own_message :: message where
  "own_message = \<lparr>msg_id = Str (utf16 ''m7''), content = Plain (Str (utf16 ''mine'')),
                  author = Some \<lparr>user_id = Str (utf16 ''u1'')\<rparr>, uncopied = []\<rparr>"

text \<open>
  A message that is an instance of a class: two of its properties come from the class and
  are not copied by a spread.
\<close>

definition class_message :: message where
  "class_message = \<lparr>msg_id = Str (utf16 ''m3''), content = Plain (Str (utf16 ''hey'')),
                    author = Some \<lparr>user_id = Str (utf16 ''u2'')\<rparr>,
                    uncopied = [utf16 ''isEdited'', utf16 ''toJS'']\<rparr>"

text \<open>Messages whose ids are names of members of \<open>Object.prototype\<close>.\<close>

definition proto_message :: message where
  "proto_message = \<lparr>msg_id = Str (utf16 ''__proto__''), content = Plain (Str (utf16 ''hi'')),
                    author = Some \<lparr>user_id = Str (utf16 ''u2'')\<rparr>, uncopied = []\<rparr>"

definition ctor_message :: message where
  "ctor_message = \<lparr>msg_id = Str (utf16 ''constructor''), content = Plain (Str (utf16 ''hi'')),
                   author = Some \<lparr>user_id = Str (utf16 ''u2'')\<rparr>, uncopied = []\<rparr>"

definition menu_props_of :: "message \<Rightarrow> unit menu_props" where
  "menu_props_of m = \<lparr>message = Some m, currentUserId = Str (utf16 ''u1'')\<rparr>"

text \<open>A message whose id is the empty string.\<close>

definition blank_id_message :: message where
  "blank_id_message = \<lparr>msg_id = Str [], content = Plain (Str (utf16 ''hi'')), author = None,
                       uncopied = []\<rparr>"

text \<open>Menus with two children, with one child that is not in an array, and with none.\<close>

definition list_menu :: "(nat, unit, unit) element" where
  "list_menu = \<lparr>props = Some \<lparr>children = Array [Elem 0, Elem 1]\<rparr>\<rparr>"

definition single_menu :: "(nat, unit, unit) element" where
  "single_menu = \<lparr>props = Some \<lparr>children = Single (Elem 0)\<rparr>\<rparr>"

definition childless_menu :: "(nat, unit, unit) element" where
  "childless_menu = \<lparr>props = Some \<lparr>children = Single (Prim Undefined)\<rparr>\<rparr>"

definition builder_of ::
  "(nat, unit, unit) element \<Rightarrow> unit menu_props option \<Rightarrow> (nat, unit, unit) element option" where
  "builder_of menu ps = Some menu"

text \<open>
  A host with every lookup target, and a host in which no module has the properties
  \<open>openContextMenuLazy\<close> and \<open>closeContextMenu\<close>.
\<close>

definition full_host :: host where
  "full_host =
     \<lparr>findByProps = (\<lambda>ps. if ps = [''MessageContent'']
                          then HObj [(''MessageContent'', HObj [(''prototype'', HObj [])])]
                          else HObj [(''openContextMenuLazy'', HObj []), (''closeContextMenu'', HObj [])]),
      findByName = (\<lambda>n. HObj [(''name'', HObj [])])\<rparr>"

definition menuless_host :: host where
  "menuless_host =
     \<lparr>findByProps = (\<lambda>ps. if ps = [''MessageContent'']
                          then HObj [(''MessageContent'', HObj [(''prototype'', HObj [])])]
                          else HUndefined),
      findByName = (\<lambda>n. HUndefined)\<rparr>"

text \<open>
  The component whose props object, at address 0, refers to the given message, at
  address 0; the props object has one property that a spread does not copy.
\<close>

definition component_of :: "message \<Rightarrow> (unit, unit) component" where
  "component_of m =
     \<lparr>msg_heap = [m],
      props_heap = [\<lparr>message_ref = Some 0, props_uncopied = [utf16 ''key'']\<rparr>],
      this_props = Some 0\<rparr>"

definition blank_id_component :: "(unit, unit) component" where
  "blank_id_component = component_of blank_id_message"

definition m1_component :: "(unit, unit) component" where
  "m1_component = component_of m1"

section \<open>Properties of the store\<close>

lemma fold_delete_filter:
  "fold (\<lambda>key E'. AList.delete key E') ks E = filter (\<lambda>p. fst p \<notin> set ks) E"
proof (induction ks arbitrary: E)
  case Nil
  show ?case by simp
next
  case (Cons k ks)
  have "AList.delete k E = filter (\<lambda>p. fst p \<noteq> k) E"
    by (induction E) auto
  with Cons show ?case
    by (simp add: conj_commute)
qed

lemma clear_edits_empty: "clear_edits E = []"
  by (simp add: clear_edits_def fold_delete_filter)

lemma lookup_edit_own:
  "map_of E (property_key i) = Some t \<Longrightarrow> lookup_edit E i = Plain (Str t)"
  by (simp add: lookup_edit_def)

lemma lookup_edit_absent:
  "map_of E (property_key i) = None \<Longrightarrow> property_key i \<notin> set object_prototype_keys
   \<Longrightarrow> lookup_edit E i = Plain Undefined"
  by (simp add: lookup_edit_def)

lemma lookup_edit_inherited:
  "map_of E (property_key i) = None \<Longrightarrow> property_key i \<in> set object_prototype_keys
   \<Longrightarrow> lookup_edit E i = Inherited (property_key i)"
  by (simp add: lookup_edit_def)

lemma truthy_lookup_edit:
  "truthy_js (lookup_edit E i) \<longleftrightarrow>
     (\<exists>t. map_of E (property_key i) = Some t \<and> t \<noteq> [])
     \<or> (map_of E (property_key i) = None \<and> property_key i \<in> set object_prototype_keys)"
  by (auto simp: lookup_edit_def split: option.splits)

lemma map_of_assign_edit:
  "key \<noteq> utf16 ''__proto__'' \<Longrightarrow> map_of (assign_edit key t E) key = Some t"
  by (simp add: assign_edit_def update_conv')

lemma set_update_subset: "set (AList.update k v E) \<subseteq> insert (k, v) (set E)"
  by (induction E) auto

lemma set_delete_subset: "set (AList.delete k E) \<subseteq> set E"
  by (induction E) auto

lemma set_assign_subset: "set (assign_edit k v E) \<subseteq> insert (k, v) (set E)"
  using set_update_subset [of k v E] by (auto simp: assign_edit_def)

text \<open>
  C3, as amended. For every message identifier other than \<open>__proto__\<close> and every text \<open>t\<close>
  whose trimmed form is not empty, confirming the dialog with \<open>t\<close> and then reading the
  store at that identifier yields \<open>t\<close> itself: the stored value is neither trimmed nor
  altered in another way.
\<close>

theorem onConfirm_then_lookup:
  assumes "trim t \<noteq> []"
    and "property_key (msg_id m) \<noteq> utf16 ''__proto__''"
  shows "lookup_edit (onConfirm m t E) (msg_id m) = Plain (Str t)
    \<and> map_of (onConfirm m t E) (property_key (msg_id m)) = Some t"
  using assms by (simp add: onConfirm_def lookup_edit_own map_of_assign_edit)

theorem onConfirm_then_lookup_witness:
  "trim (utf16 '' Hello '') \<noteq> []
   \<and> property_key (msg_id m1) \<noteq> utf16 ''__proto__''
   \<and> lookup_edit (onConfirm m1 (utf16 '' Hello '') []) (msg_id m1) = Plain (Str (utf16 '' Hello ''))
   \<and> property_key (msg_id ctor_message) \<noteq> utf16 ''__proto__''
   \<and> lookup_edit (onConfirm ctor_message (utf16 '' Hello '') []) (msg_id ctor_message)
       = Plain (Str (utf16 '' Hello ''))"
proof -
  have h: "trim (utf16 '' Hello '') \<noteq> []"
    by (simp add: trim_def utf16_def is_ws_def)
  have k1: "property_key (msg_id m1) \<noteq> utf16 ''__proto__''"
    by (simp add: m1_def utf16_def)
  have k2: "property_key (msg_id ctor_message) \<noteq> utf16 ''__proto__''"
    by (simp add: ctor_message_def utf16_def)
  show ?thesis
    using h k1 k2 onConfirm_then_lookup [OF h k1, of "[]"] onConfirm_then_lookup [OF h k2, of "[]"]
    by simp
qed

text \<open>
  C3 as stated fails for the identifier \<open>__proto__\<close>: the confirmation stores nothing, and
  the read yields the inherited member, not the text.
\<close>

theorem onConfirm_proto_counterexample:
  "trim (utf16 ''Hello'') \<noteq> []
   \<and> onConfirm proto_message (utf16 ''Hello'') [] = []
   \<and> lookup_edit (onConfirm proto_message (utf16 ''Hello'') []) (msg_id proto_message)
       = Inherited (utf16 ''__proto__'')"
  by (simp add: onConfirm_def assign_edit_def lookup_edit_def proto_message_def
      object_prototype_keys_def trim_def is_ws_def utf16_def)

text \<open>
  C4, as amended. Confirming the dialog with a text whose trimmed form is empty (the empty
  string, or white space only) acts on the store exactly as the remove action does, from
  any store state, and leaves no entry stored for the identifier; for an identifier that is
  not the name of a member of \<open>Object.prototype\<close>, a later read at it finds nothing.
\<close>

theorem onConfirm_blank_is_remove:
  assumes "trim t = []"
  shows "onConfirm m t E = remove_action m E
    \<and> map_of (onConfirm m t E) (property_key (msg_id m)) = None
    \<and> (property_key (msg_id m) \<notin> set object_prototype_keys
         \<longrightarrow> lookup_edit (onConfirm m t E) (msg_id m) = Plain Undefined)"
  using assms
  by (simp add: onConfirm_def remove_action_def lookup_edit_def delete_conv')

theorem onConfirm_blank_is_remove_witness:
  "trim (utf16 ''   '') = []
   \<and> property_key (msg_id m1) \<notin> set object_prototype_keys
   \<and> onConfirm m1 (utf16 ''   '') [(utf16 ''m1'', utf16 ''Hello''), (utf16 ''m2'', utf16 ''Bye'')]
      = [(utf16 ''m2'', utf16 ''Bye'')]
   \<and> remove_action m1 [(utf16 ''m1'', utf16 ''Hello''), (utf16 ''m2'', utf16 ''Bye'')]
      = [(utf16 ''m2'', utf16 ''Bye'')]
   \<and> lookup_edit
        (onConfirm m1 (utf16 ''   '') [(utf16 ''m1'', utf16 ''Hello''), (utf16 ''m2'', utf16 ''Bye'')])
        (msg_id m1) = Plain Undefined"
proof -
  have h: "trim (utf16 ''   '') = []"
    by (simp add: trim_def utf16_def is_ws_def)
  have k: "property_key (msg_id m1) \<notin> set object_prototype_keys"
    by (simp add: m1_def object_prototype_keys_def utf16_def)
  have r: "remove_action m1 [(utf16 ''m1'', utf16 ''Hello''), (utf16 ''m2'', utf16 ''Bye'')]
      = [(utf16 ''m2'', utf16 ''Bye'')]"
    by (simp add: remove_action_def m1_def utf16_def)
  note th = onConfirm_blank_is_remove [OF h,
      of m1 "[(utf16 ''m1'', utf16 ''Hello''), (utf16 ''m2'', utf16 ''Bye'')]"]
  have a: "onConfirm m1 (utf16 ''   '') [(utf16 ''m1'', utf16 ''Hello''), (utf16 ''m2'', utf16 ''Bye'')]
      = [(utf16 ''m2'', utf16 ''Bye'')]"
    using th r by simp
  have c: "lookup_edit
        (onConfirm m1 (utf16 ''   '') [(utf16 ''m1'', utf16 ''Hello''), (utf16 ''m2'', utf16 ''Bye'')])
        (msg_id m1) = Plain Undefined"
    using th k by blast
  show ?thesis
    using h k a r c by (intro conjI) assumption+
qed

text \<open>
  C4 as stated fails for an identifier that names a member of \<open>Object.prototype\<close>: after
  the blank confirmation the read at \<open>constructor\<close> yields the inherited member, which is
  truthy.
\<close>

theorem onConfirm_blank_ctor_counterexample:
  "trim (utf16 ''   '') = []
   \<and> onConfirm ctor_message (utf16 ''   '') [] = remove_action ctor_message []
   \<and> lookup_edit (onConfirm ctor_message (utf16 ''   '') []) (msg_id ctor_message)
       = Inherited (utf16 ''constructor'')
   \<and> truthy_js (lookup_edit (onConfirm ctor_message (utf16 ''   '') []) (msg_id ctor_message))"
  by (simp add: onConfirm_def remove_action_def lookup_edit_def ctor_message_def
      object_prototype_keys_def trim_def is_ws_def utf16_def)

lemma nonblank_onConfirm: "nonblank E \<Longrightarrow> nonblank (onConfirm m t E)"
  using set_assign_subset [of "property_key (msg_id m)" t E]
        set_delete_subset [of "property_key (msg_id m)" E]
  by (auto simp: nonblank_def onConfirm_def list_all_iff)

lemma nonblank_remove: "nonblank E \<Longrightarrow> nonblank (remove_action m E)"
  using set_delete_subset [of "property_key (msg_id m)" E]
  by (auto simp: nonblank_def remove_action_def list_all_iff)

lemma messageEdits_onUnload: "messageEdits (onUnload s) = []"
  by (simp add: onUnload_def Let_def clear_edits_empty)

lemma nonblank_apply_op: "nonblank (messageEdits s) \<Longrightarrow> nonblank (messageEdits (apply_op x s))"
  by (cases x)
     (simp_all add: nonblank_onConfirm nonblank_remove clearAllEdits_def clear_edits_empty
        messageEdits_onUnload, simp_all add: nonblank_def)

lemma nonblank_fold: "nonblank (messageEdits s) \<Longrightarrow> nonblank (messageEdits (fold apply_op ops s))"
  by (induction ops arbitrary: s) (simp_all add: nonblank_apply_op)

lemma nonblank_run: "nonblank (messageEdits (run ops))"
  unfolding run_def by (rule nonblank_fold) (simp add: initial_def nonblank_def)

text \<open>In a reachable store the keys are distinct, and \<open>__proto__\<close> is not among them.\<close>

lemma keys_ok_apply_op:
  assumes "distinct (map fst (messageEdits s)) \<and> map_of (messageEdits s) (utf16 ''__proto__'') = None"
  shows "distinct (map fst (messageEdits (apply_op x s)))
       \<and> map_of (messageEdits (apply_op x s)) (utf16 ''__proto__'') = None"
  using assms
  by (cases x)
     (auto simp: onConfirm_def assign_edit_def remove_action_def clearAllEdits_def
        clear_edits_empty messageEdits_onUnload distinct_update distinct_delete
        update_conv' delete_conv')

lemma keys_ok_fold:
  "distinct (map fst (messageEdits s)) \<and> map_of (messageEdits s) (utf16 ''__proto__'') = None
   \<Longrightarrow> distinct (map fst (messageEdits (fold apply_op ops s)))
     \<and> map_of (messageEdits (fold apply_op ops s)) (utf16 ''__proto__'') = None"
  by (induction ops arbitrary: s) (simp_all add: keys_ok_apply_op)

lemma keys_ok_run:
  "distinct (map fst (messageEdits (run ops)))
   \<and> map_of (messageEdits (run ops)) (utf16 ''__proto__'') = None"
  unfolding run_def by (rule keys_ok_fold) (simp add: initial_def)

lemma nonblank_present:
  assumes "nonblank E"
  shows "(k \<in> fst ` set E) = (\<exists>v. map_of E k = Some v \<and> trim v \<noteq> [])"
proof
  assume "k \<in> fst ` set E"
  then obtain v where v: "map_of E k = Some v"
    by (meson weak_map_of_SomeI imageE prod.collapse map_of_eq_None_iff not_None_eq)
  then have "(k, v) \<in> set E" by (rule map_of_SomeD)
  with assms have "trim v \<noteq> []" by (auto simp: nonblank_def list_all_iff)
  with v show "\<exists>v. map_of E k = Some v \<and> trim v \<noteq> []" by blast
next
  assume "\<exists>v. map_of E k = Some v \<and> trim v \<noteq> []"
  then obtain v where "map_of E k = Some v" by blast
  then have "(k, v) \<in> set E" by (rule map_of_SomeD)
  then show "k \<in> fst ` set E" by force
qed

text \<open>
  C5. In every store state reached from the empty store by a sequence of confirmations,
  remove actions, \<open>clearAllEdits\<close> calls and deactivations, a key is present exactly when
  it has a value whose trimmed form is not empty: no blank value is ever stored.
\<close>

theorem store_invariant:
  "(\<forall>k. (k \<in> fst ` set (messageEdits (run ops)))
        = (\<exists>v. map_of (messageEdits (run ops)) k = Some v \<and> trim v \<noteq> []))
   \<and> list_all (\<lambda>p. trim (snd p) \<noteq> []) (messageEdits (run ops))"
  using nonblank_run [of ops] nonblank_present [of "messageEdits (run ops)"]
  by (simp add: nonblank_def)

theorem store_invariant_witness:
  "messageEdits (run [ConfirmEdit m1 (utf16 ''Hello''), ConfirmEdit own_message (utf16 ''  '')])
     = [(utf16 ''m1'', utf16 ''Hello'')]
   \<and> list_all (\<lambda>p. trim (snd p) \<noteq> [])
       (messageEdits (run [ConfirmEdit m1 (utf16 ''Hello''), ConfirmEdit own_message (utf16 ''  '')]))"
proof -
  have "messageEdits (run [ConfirmEdit m1 (utf16 ''Hello''), ConfirmEdit own_message (utf16 ''  '')])
          = [(utf16 ''m1'', utf16 ''Hello'')]"
    by (simp add: run_def initial_def onConfirm_def assign_edit_def trim_def is_ws_def m1_def
        own_message_def utf16_def)
  then show ?thesis
    using store_invariant
      [of "[ConfirmEdit m1 (utf16 ''Hello''), ConfirmEdit own_message (utf16 ''  '')]"]
    by simp
qed

section \<open>Properties of the render pre-hook\<close>

lemma obj_at_append_old: "a < length h \<Longrightarrow> obj_at (h @ [x]) a = obj_at h a"
  by (simp add: obj_at_def nth_append)

lemma obj_at_append_new: "obj_at (h @ [x]) (length h) = Some x"
  by (simp add: obj_at_def)

lemma obj_at_Some_less: "obj_at h a = Some x \<Longrightarrow> a < length h"
  by (simp add: obj_at_def split: if_splits)

lemma spread_message_plain: "uncopied m = [] \<Longrightarrow> spread_message m = m"
  by (simp add: spread_message_def)

lemma spread_props_plain: "props_uncopied p = [] \<Longrightarrow> spread_props p = p"
  by (simp add: spread_props_def)

lemma render_hook_fires:
  assumes "this_props_obj c = Some p"
    and "message_ref p = Some ma"
    and "obj_at (msg_heap c) ma = Some m"
    and "truthy (msg_id m)"
    and "truthy_js (lookup_edit E (msg_id m))"
  shows "render_hook E c =
           c\<lparr>msg_heap := msg_heap c @ [(spread_message m)\<lparr>content := lookup_edit E (msg_id m)\<rparr>],
             props_heap := props_heap c
               @ [(spread_props p)\<lparr>message_ref := Some (length (msg_heap c))\<rparr>],
             this_props := Some (length (props_heap c))\<rparr>"
  using assms by (simp add: render_hook_def this_message_def)

lemma render_hook_unchanged:
  assumes "\<not> (\<exists>m. this_message c = Some m \<and> truthy (msg_id m)
              \<and> truthy_js (lookup_edit E (msg_id m)))"
  shows "render_hook E c = c"
  using assms by (auto simp: render_hook_def split: option.splits)

lemma render_hook_view:
  assumes "this_props_obj c = Some p"
    and "message_ref p = Some ma"
    and m: "obj_at (msg_heap c) ma = Some m"
    and "truthy (msg_id m)"
    and "truthy_js (lookup_edit E (msg_id m))"
  shows "this_props_obj (render_hook E c)
           = Some ((spread_props p)\<lparr>message_ref := Some (length (msg_heap c))\<rparr>)"
    and "this_message (render_hook E c)
           = Some ((spread_message m)\<lparr>content := lookup_edit E (msg_id m)\<rparr>)"
    and "take (length (msg_heap c)) (msg_heap (render_hook E c)) = msg_heap c"
    and "take (length (props_heap c)) (props_heap (render_hook E c)) = props_heap c"
    and "obj_at (msg_heap (render_hook E c)) ma = Some m"
proof -
  note eq = render_hook_fires [OF assms]
  have "ma < length (msg_heap c)" using m by (rule obj_at_Some_less)
  then have old:
    "obj_at (msg_heap c @ [(spread_message m)\<lparr>content := lookup_edit E (msg_id m)\<rparr>]) ma = Some m"
    using m by (simp add: obj_at_append_old)
  show "this_props_obj (render_hook E c)
          = Some ((spread_props p)\<lparr>message_ref := Some (length (msg_heap c))\<rparr>)"
    by (simp add: eq this_props_obj_def obj_at_append_new)
  show "this_message (render_hook E c)
          = Some ((spread_message m)\<lparr>content := lookup_edit E (msg_id m)\<rparr>)"
    by (simp add: eq this_props_obj_def this_message_def obj_at_append_new)
  show "take (length (msg_heap c)) (msg_heap (render_hook E c)) = msg_heap c"
    by (simp add: eq)
  show "take (length (props_heap c)) (props_heap (render_hook E c)) = props_heap c"
    by (simp add: eq)
  show "obj_at (msg_heap (render_hook E c)) ma = Some m"
    by (simp add: eq old)
qed

lemma render_hook_twice:
  "this_message (render_hook E (render_hook E c)) = this_message (render_hook E c)
   \<and> map_option render_props.more (this_props_obj (render_hook E (render_hook E c)))
       = map_option render_props.more (this_props_obj (render_hook E c))"
proof (cases "\<exists>m. this_message c = Some m \<and> truthy (msg_id m)
                \<and> truthy_js (lookup_edit E (msg_id m))")
  case False
  then have "render_hook E c = c" by (rule render_hook_unchanged)
  then show ?thesis by simp
next
  case True
  then obtain m where m: "this_message c = Some m" "truthy (msg_id m)"
      "truthy_js (lookup_edit E (msg_id m))" by blast
  from m(1) obtain p ma where p: "this_props_obj c = Some p" "message_ref p = Some ma"
      "obj_at (msg_heap c) ma = Some m"
    by (auto simp: this_message_def split: option.splits)
  let ?c = "render_hook E c"
  let ?x = "lookup_edit E (msg_id m)"
  let ?m = "(spread_message m)\<lparr>content := ?x\<rparr>"
  let ?p = "(spread_props p)\<lparr>message_ref := Some (length (msg_heap c))\<rparr>"
  note f1 = render_hook_view [OF p m(2) m(3)]
  show ?thesis
  proof (cases "truthy (msg_id ?m)")
    case False
    then have "render_hook E ?c = ?c"
      using f1(2) by (intro render_hook_unchanged) auto
    then show ?thesis by simp
  next
    case True
    then have same: "msg_id ?m = msg_id m"
      by (auto simp: spread_message_def split: if_splits)
    have r': "message_ref ?p = Some (length (msg_heap c))"
      by simp
    have o': "obj_at (msg_heap ?c) (length (msg_heap c)) = Some ?m"
      using f1(1,2) by (simp add: this_message_def)
    have t': "truthy_js (lookup_edit E (msg_id ?m))"
      using m(3) same by simp
    note f2 = render_hook_view [OF f1(1) r' o' True t']
    have "spread_message ?m = ?m"
      by (rule spread_message_plain) (simp add: spread_message_def)
    then have again: "(spread_message ?m)\<lparr>content := lookup_edit E (msg_id ?m)\<rparr> = ?m"
      using same by simp
    show ?thesis
      using f1(1,2) f2(1,2) again by (simp add: spread_props_def)
  qed
qed

text \<open>
  C6, as amended. For every render invocation whose message has a truthy (non-empty) id
  and a non-empty override \<open>t\<close> stored for that id, the hook leaves \<open>this.props\<close> referring
  to a new plain object that has the own enumerable properties of the original props,
  except for its message: a new plain object that has the own enumerable properties of
  the original message, except that its content is \<open>t\<close>. What an object spread does not
  copy is not carried over to the new objects. Every object that existed before the call
  is unchanged; in particular the original message still has its own content.
\<close>

theorem render_hook_frame:
  assumes "this_props_obj c = Some p"
    and "message_ref p = Some ma"
    and "obj_at (msg_heap c) ma = Some m"
    and "truthy (msg_id m)"
    and "map_of E (property_key (msg_id m)) = Some t"
    and "t \<noteq> []"
  shows "this_props_obj (render_hook E c)
           = Some ((spread_props p)\<lparr>message_ref := Some (length (msg_heap c))\<rparr>)
       \<and> this_message (render_hook E c) = Some ((spread_message m)\<lparr>content := Plain (Str t)\<rparr>)
       \<and> map_option content (this_message (render_hook E c)) = Some (Plain (Str t))
       \<and> map_option message.more (this_message (render_hook E c)) = Some (message.more m)
       \<and> map_option uncopied (this_message (render_hook E c)) = Some []
       \<and> (utf16 ''id'' \<notin> set (uncopied m)
            \<longrightarrow> map_option msg_id (this_message (render_hook E c)) = Some (msg_id m))
       \<and> (utf16 ''author'' \<notin> set (uncopied m)
            \<longrightarrow> map_option author (this_message (render_hook E c)) = Some (author m))
       \<and> map_option render_props.more (this_props_obj (render_hook E c))
            = Some (render_props.more p)
       \<and> map_option props_uncopied (this_props_obj (render_hook E c)) = Some []
       \<and> take (length (msg_heap c)) (msg_heap (render_hook E c)) = msg_heap c
       \<and> take (length (props_heap c)) (props_heap (render_hook E c)) = props_heap c
       \<and> obj_at (msg_heap (render_hook E c)) ma = Some m"
proof -
  have x: "lookup_edit E (msg_id m) = Plain (Str t)"
    using assms(5) by (rule lookup_edit_own)
  then have "truthy_js (lookup_edit E (msg_id m))"
    using assms(6) by simp
  note v = render_hook_view [OF assms(1-4) this]
  show ?thesis
    using v by (simp add: x spread_message_def spread_props_def)
qed

theorem render_hook_frame_witness:
  "this_props_obj (component_of class_message)
     = Some \<lparr>message_ref = Some 0, props_uncopied = [utf16 ''key'']\<rparr>
   \<and> obj_at (msg_heap (component_of class_message)) 0 = Some class_message
   \<and> truthy (msg_id class_message)
   \<and> map_of [(utf16 ''m3'', utf16 ''Hello'')] (property_key (msg_id class_message))
       = Some (utf16 ''Hello'')
   \<and> utf16 ''id'' \<notin> set (uncopied class_message)
   \<and> utf16 ''author'' \<notin> set (uncopied class_message)
   \<and> this_props_obj (render_hook [(utf16 ''m3'', utf16 ''Hello'')] (component_of class_message))
       = Some \<lparr>message_ref = Some 1, props_uncopied = []\<rparr>
   \<and> this_message (render_hook [(utf16 ''m3'', utf16 ''Hello'')] (component_of class_message))
       = Some \<lparr>msg_id = Str (utf16 ''m3''), content = Plain (Str (utf16 ''Hello'')),
               author = Some \<lparr>user_id = Str (utf16 ''u2'')\<rparr>, uncopied = []\<rparr>
   \<and> obj_at (msg_heap (render_hook [(utf16 ''m3'', utf16 ''Hello'')] (component_of class_message))) 0
       = Some class_message"
proof -
  let ?E = "[(utf16 ''m3'', utf16 ''Hello'')]"
  let ?c = "component_of class_message"
  have a: "this_props_obj ?c = Some \<lparr>message_ref = Some 0, props_uncopied = [utf16 ''key'']\<rparr>"
    by (simp add: this_props_obj_def obj_at_def component_of_def)
  have b: "message_ref \<lparr>message_ref = Some 0, props_uncopied = [utf16 ''key'']\<rparr> = Some 0"
    by simp
  have c: "obj_at (msg_heap ?c) 0 = Some class_message"
    by (simp add: obj_at_def component_of_def)
  have d: "truthy (msg_id class_message)"
    by (simp add: class_message_def utf16_def)
  have e: "map_of ?E (property_key (msg_id class_message)) = Some (utf16 ''Hello'')"
    by (simp add: class_message_def)
  have f: "utf16 ''Hello'' \<noteq> []"
    by (simp add: utf16_def)
  have g: "length (msg_heap ?c) = 1"
    by (simp add: component_of_def)
  have i: "utf16 ''id'' \<notin> set (uncopied class_message)"
    "utf16 ''author'' \<notin> set (uncopied class_message)"
    by (simp_all add: class_message_def utf16_def)
  have s: "(spread_message class_message)\<lparr>content := Plain (Str (utf16 ''Hello''))\<rparr>
      = \<lparr>msg_id = Str (utf16 ''m3''), content = Plain (Str (utf16 ''Hello'')),
         author = Some \<lparr>user_id = Str (utf16 ''u2'')\<rparr>, uncopied = []\<rparr>"
    by (simp add: spread_message_def class_message_def utf16_def)
  note th = render_hook_frame [OF a b c d e f]
  have r1: "this_props_obj (render_hook ?E ?c) = Some \<lparr>message_ref = Some 1, props_uncopied = []\<rparr>"
    using th by (simp add: g spread_props_def)
  have r2: "this_message (render_hook ?E ?c)
       = Some \<lparr>msg_id = Str (utf16 ''m3''), content = Plain (Str (utf16 ''Hello'')),
               author = Some \<lparr>user_id = Str (utf16 ''u2'')\<rparr>, uncopied = []\<rparr>"
    using th s by simp
  have r3: "obj_at (msg_heap (render_hook ?E ?c)) 0 = Some class_message"
    using th by simp
  show ?thesis
    using a c d e i r1 r2 r3 by (intro conjI) assumption+
qed

text \<open>
  C6 as stated fails for a message whose id is the empty string: the store holds an
  override under the key of that id, and the hook leaves the props as they are, with the
  message's own content.
\<close>

theorem render_hook_blank_id_counterexample:
  "this_message blank_id_component = Some blank_id_message
   \<and> lookup_edit [([], utf16 ''Hello'')] (msg_id blank_id_message) = Plain (Str (utf16 ''Hello''))
   \<and> utf16 ''Hello'' \<noteq> []
   \<and> render_hook [([], utf16 ''Hello'')] blank_id_component = blank_id_component
   \<and> map_option content (this_message (render_hook [([], utf16 ''Hello'')] blank_id_component))
       = Some (Plain (Str (utf16 ''hi'')))"
  by (simp add: render_hook_def this_message_def this_props_obj_def obj_at_def
      blank_id_component_def component_of_def blank_id_message_def lookup_edit_def utf16_def)

text \<open>
  C7. Render substitution is idempotent: with the store unchanged, the message and the
  other props that the component holds after two invocations of the hook in succession
  are those it holds after one; for a message with a truthy id and an active override
  \<open>t\<close>, the content is \<open>t\<close> both times.
\<close>

theorem render_hook_idempotent:
  "this_message (render_hook E (render_hook E c)) = this_message (render_hook E c)
   \<and> map_option render_props.more (this_props_obj (render_hook E (render_hook E c)))
       = map_option render_props.more (this_props_obj (render_hook E c))
   \<and> (this_message c = Some m \<and> truthy (msg_id m) \<and> lookup_edit E (msg_id m) = Plain (Str t)
        \<and> t \<noteq> []
        \<longrightarrow> map_option content (this_message (render_hook E c)) = Some (Plain (Str t))
          \<and> map_option content (this_message (render_hook E (render_hook E c)))
              = Some (Plain (Str t)))"
proof -
  note twice = render_hook_twice [of E c]
  have "map_option content (this_message (render_hook E c)) = Some (Plain (Str t))"
    if h: "this_message c = Some m" "truthy (msg_id m)"
      "lookup_edit E (msg_id m) = Plain (Str t)" "t \<noteq> []"
  proof -
    from h(1) obtain p ma where p: "this_props_obj c = Some p" "message_ref p = Some ma"
        "obj_at (msg_heap c) ma = Some m"
      by (auto simp: this_message_def split: option.splits)
    have "truthy_js (lookup_edit E (msg_id m))"
      using h(3,4) by simp
    from render_hook_view(2) [OF p h(2) this] show ?thesis
      using h(3) by simp
  qed
  then show ?thesis using twice by simp
qed

theorem render_hook_idempotent_witness:
  "this_message m1_component = Some m1
   \<and> truthy (msg_id m1)
   \<and> lookup_edit [(utf16 ''m1'', utf16 ''Hello'')] (msg_id m1) = Plain (Str (utf16 ''Hello''))
   \<and> map_option content (this_message (render_hook [(utf16 ''m1'', utf16 ''Hello'')] m1_component))
       = Some (Plain (Str (utf16 ''Hello'')))
   \<and> map_option content
       (this_message (render_hook [(utf16 ''m1'', utf16 ''Hello'')]
          (render_hook [(utf16 ''m1'', utf16 ''Hello'')] m1_component)))
       = Some (Plain (Str (utf16 ''Hello'')))"
proof -
  have a: "this_message m1_component = Some m1"
    by (simp add: this_message_def this_props_obj_def obj_at_def m1_component_def component_of_def)
  have d: "truthy (msg_id m1)"
    by (simp add: m1_def utf16_def)
  have e: "lookup_edit [(utf16 ''m1'', utf16 ''Hello'')] (msg_id m1) = Plain (Str (utf16 ''Hello''))"
    by (simp add: lookup_edit_def m1_def)
  have f: "utf16 ''Hello'' \<noteq> []"
    by (simp add: utf16_def)
  show ?thesis
    using a d e f render_hook_idempotent
      [of "[(utf16 ''m1'', utf16 ''Hello'')]" m1_component m1 "utf16 ''Hello''"]
    by simp
qed

text \<open>
  C10, as amended. The hook changes the component only when \<open>this.props\<close> holds a message
  whose id is truthy and for which either the store has a non-empty override or the id is
  the name of a member of \<open>Object.prototype\<close>. For a message whose id is missing or the
  empty string, nothing changes, whatever the store holds (also an entry under the empty
  key).
\<close>

theorem render_hook_only_when:
  "(render_hook E c \<noteq> c \<longrightarrow>
      (\<exists>m. this_message c = Some m \<and> truthy (msg_id m)
          \<and> ((\<exists>t. map_of E (property_key (msg_id m)) = Some t \<and> t \<noteq> [])
             \<or> (map_of E (property_key (msg_id m)) = None
                \<and> property_key (msg_id m) \<in> set object_prototype_keys))))
   \<and> (this_message c = Some m \<and> \<not> truthy (msg_id m) \<longrightarrow> render_hook E c = c)"
proof (intro conjI impI)
  assume "render_hook E c \<noteq> c"
  then have "\<exists>m. this_message c = Some m \<and> truthy (msg_id m)
      \<and> truthy_js (lookup_edit E (msg_id m))"
    using render_hook_unchanged [of c E] by blast
  then show "\<exists>m. this_message c = Some m \<and> truthy (msg_id m)
          \<and> ((\<exists>t. map_of E (property_key (msg_id m)) = Some t \<and> t \<noteq> [])
             \<or> (map_of E (property_key (msg_id m)) = None
                \<and> property_key (msg_id m) \<in> set object_prototype_keys))"
    by (simp add: truthy_lookup_edit)
next
  assume "this_message c = Some m \<and> \<not> truthy (msg_id m)"
  then show "render_hook E c = c"
    by (intro render_hook_unchanged) auto
qed

theorem render_hook_only_when_witness:
  "this_message blank_id_component = Some blank_id_message
   \<and> msg_id blank_id_message = Str []
   \<and> map_of [([], utf16 ''Hello'')] [] = Some (utf16 ''Hello'')
   \<and> render_hook [([], utf16 ''Hello'')] blank_id_component = blank_id_component
   \<and> render_hook [(utf16 ''m1'', utf16 ''Hello'')] m1_component \<noteq> m1_component
   \<and> (\<exists>m. this_message m1_component = Some m \<and> truthy (msg_id m)
          \<and> ((\<exists>t. map_of [(utf16 ''m1'', utf16 ''Hello'')] (property_key (msg_id m)) = Some t
                 \<and> t \<noteq> [])
             \<or> (map_of [(utf16 ''m1'', utf16 ''Hello'')] (property_key (msg_id m)) = None
                \<and> property_key (msg_id m) \<in> set object_prototype_keys)))"
proof -
  have a: "this_message blank_id_component = Some blank_id_message"
    by (simp add: this_message_def this_props_obj_def obj_at_def blank_id_component_def
        component_of_def)
  have b: "msg_id blank_id_message = Str []"
    by (simp add: blank_id_message_def)
  have c: "render_hook [(utf16 ''m1'', utf16 ''Hello'')] m1_component \<noteq> m1_component"
    by (simp add: render_hook_def this_message_def this_props_obj_def obj_at_def
        m1_component_def component_of_def m1_def lookup_edit_def utf16_def)
  show ?thesis
    using a b c
      render_hook_only_when [of "[([], utf16 ''Hello'')]" blank_id_component blank_id_message]
      render_hook_only_when [of "[(utf16 ''m1'', utf16 ''Hello'')]" m1_component]
    by simp
qed

text \<open>
  C10 as stated fails for a message whose id names a member of \<open>Object.prototype\<close>: with
  an empty store the hook replaces the props, and the new message's content is the
  inherited member.
\<close>

theorem render_hook_ctor_counterexample:
  "this_message (component_of ctor_message) = Some ctor_message
   \<and> truthy (msg_id ctor_message)
   \<and> map_of [] (property_key (msg_id ctor_message)) = None
   \<and> render_hook [] (component_of ctor_message) \<noteq> component_of ctor_message
   \<and> map_option content (this_message (render_hook [] (component_of ctor_message)))
       = Some (Inherited (utf16 ''constructor''))"
  by (simp add: render_hook_def this_message_def this_props_obj_def obj_at_def component_of_def
      ctor_message_def lookup_edit_def object_prototype_keys_def spread_message_def
      spread_props_def utf16_def)

section \<open>Properties of the context-menu wrapper\<close>

text \<open>
  C8. When the call's properties are absent or carry no message, or the message's author
  id equals the viewer's id, the wrapper returns what the original builder returned,
  whatever the store holds.
\<close>

theorem menu_wrapper_skips:
  assumes "ps = None \<or> (\<exists>pr. ps = Some pr \<and> (message pr = None
             \<or> (\<exists>m. message pr = Some m \<and> author_id m = currentUserId pr)))"
  shows "menu_wrapper h E menuComponent ps = menuComponent ps"
  using assms by (auto simp: menu_wrapper_def Let_def)

theorem menu_wrapper_skips_witness:
  "author_id own_message = currentUserId (menu_props_of own_message)
   \<and> lookup_edit [(utf16 ''m7'', utf16 ''Hello'')] (msg_id own_message)
       = Plain (Str (utf16 ''Hello''))
   \<and> menu_wrapper full_host [(utf16 ''m7'', utf16 ''Hello'')] (builder_of list_menu)
        (Some (menu_props_of own_message)) = Some list_menu"
proof -
  have a: "author_id own_message = currentUserId (menu_props_of own_message)"
    by (simp add: author_id_def own_message_def menu_props_of_def)
  have b: "message (menu_props_of own_message) = Some own_message"
    by (simp add: menu_props_of_def)
  have c: "lookup_edit [(utf16 ''m7'', utf16 ''Hello'')] (msg_id own_message)
       = Plain (Str (utf16 ''Hello''))"
    by (simp add: lookup_edit_def own_message_def)
  show ?thesis
    using a c menu_wrapper_skips [of "Some (menu_props_of own_message)" full_host
        "[(utf16 ''m7'', utf16 ''Hello'')]" "builder_of list_menu"] b
    by (simp add: builder_of_def)
qed

text \<open>
  C1, as amended. For a call whose properties carry a message not written by the viewer,
  and whose original menu has props with a truthy \<open>children\<close> value: the wrapper turns
  \<open>children\<close> into a list (a single value becomes a one-element list) and appends exactly
  one action, "Edit Locally", when the store has no override for the message's id and the
  id is not the name of a member of \<open>Object.prototype\<close>, and exactly two, "Edit Local Copy"
  then "Remove Local Edit", when the store has a non-empty override for the id. When
  \<open>children\<close> is not truthy, the menu is returned as the builder made it.
\<close>

theorem menu_wrapper_appends:
  assumes "message pr = Some m"
    and "author_id m \<noteq> currentUserId pr"
    and "menuComponent (Some pr) = Some menu"
    and "props menu = Some ep"
  shows "(truthy_children (children ep) \<and> map_of E (property_key (msg_id m)) = None
          \<and> property_key (msg_id m) \<notin> set object_prototype_keys \<longrightarrow>
            menu_wrapper h E menuComponent (Some pr) =
              Some (menu\<lparr>props := Some (ep\<lparr>children := Array (children_list (children ep) @
                [Btn \<lparr>button_id = ''edit-locally'', label = ''Edit Locally'',
                      icon = findByName h ''PencilIcon'', destructive = None,
                      action = EditAction m\<rparr>])\<rparr>)\<rparr>))
       \<and> (truthy_children (children ep) \<and> map_of E (property_key (msg_id m)) = Some t
          \<and> t \<noteq> [] \<longrightarrow>
            menu_wrapper h E menuComponent (Some pr) =
              Some (menu\<lparr>props := Some (ep\<lparr>children := Array (children_list (children ep) @
                [Btn \<lparr>button_id = ''edit-locally'', label = ''Edit Local Copy'',
                      icon = findByName h ''PencilIcon'', destructive = None,
                      action = EditAction m\<rparr>,
                 Btn \<lparr>button_id = ''remove-local-edit'', label = ''Remove Local Edit'',
                      icon = findByName h ''TrashIcon'', destructive = Some True,
                      action = RemoveAction m\<rparr>])\<rparr>)\<rparr>))
       \<and> (\<not> truthy_children (children ep) \<longrightarrow>
            menu_wrapper h E menuComponent (Some pr) = Some menu)"
  using assms
  by (simp add: menu_wrapper_def Let_def editButton_def removeButton_def lookup_edit_def)

theorem menu_wrapper_appends_witness:
  "message (menu_props_of m1) = Some m1
   \<and> author_id m1 \<noteq> currentUserId (menu_props_of m1)
   \<and> map_of [] (property_key (msg_id m1)) = None
   \<and> property_key (msg_id m1) \<notin> set object_prototype_keys
   \<and> menu_wrapper full_host [] (builder_of single_menu) (Some (menu_props_of m1))
       = Some \<lparr>props = Some \<lparr>children = Array
           [Elem 0,
            Btn \<lparr>button_id = ''edit-locally'', label = ''Edit Locally'',
                 icon = HObj [(''name'', HObj [])], destructive = None,
                 action = EditAction m1\<rparr>]\<rparr>\<rparr>
   \<and> map_of [(utf16 ''m1'', utf16 ''Hello'')] (property_key (msg_id m1)) = Some (utf16 ''Hello'')
   \<and> menu_wrapper full_host [(utf16 ''m1'', utf16 ''Hello'')] (builder_of list_menu)
        (Some (menu_props_of m1))
       = Some \<lparr>props = Some \<lparr>children = Array
           [Elem 0, Elem 1,
            Btn \<lparr>button_id = ''edit-locally'', label = ''Edit Local Copy'',
                 icon = HObj [(''name'', HObj [])], destructive = None,
                 action = EditAction m1\<rparr>,
            Btn \<lparr>button_id = ''remove-local-edit'', label = ''Remove Local Edit'',
                 icon = HObj [(''name'', HObj [])], destructive = Some True,
                 action = RemoveAction m1\<rparr>]\<rparr>\<rparr>
   \<and> menu_wrapper full_host [(utf16 ''m1'', utf16 ''Hello'')] (builder_of childless_menu)
        (Some (menu_props_of m1)) = Some childless_menu"
proof -
  have a: "message (menu_props_of m1) = Some m1"
    by (simp add: menu_props_of_def)
  have b: "author_id m1 \<noteq> currentUserId (menu_props_of m1)"
    by (simp add: author_id_def m1_def menu_props_of_def utf16_def)
  have c1: "builder_of single_menu (Some (menu_props_of m1)) = Some single_menu"
    and c2: "builder_of list_menu (Some (menu_props_of m1)) = Some list_menu"
    and c3: "builder_of childless_menu (Some (menu_props_of m1)) = Some childless_menu"
    by (simp_all add: builder_of_def)
  have d1: "props single_menu = Some \<lparr>children = Single (Elem 0)\<rparr>"
    and d2: "props list_menu = Some \<lparr>children = Array [Elem 0, Elem 1]\<rparr>"
    and d3: "props childless_menu = Some \<lparr>children = Single (Prim Undefined)\<rparr>"
    by (simp_all add: single_menu_def list_menu_def childless_menu_def)
  have e1: "map_of [] (property_key (msg_id m1)) = None"
    by simp
  have e2: "map_of [(utf16 ''m1'', utf16 ''Hello'')] (property_key (msg_id m1)) = Some (utf16 ''Hello'')"
    by (simp add: m1_def)
  have k: "property_key (msg_id m1) \<notin> set object_prototype_keys"
    by (simp add: m1_def object_prototype_keys_def utf16_def)
  have f: "utf16 ''Hello'' \<noteq> []"
    by (simp add: utf16_def)
  have g: "findByName full_host ''PencilIcon'' = HObj [(''name'', HObj [])]"
    "findByName full_host ''TrashIcon'' = HObj [(''name'', HObj [])]"
    by (simp_all add: full_host_def)
  note one = menu_wrapper_appends
      [where menuComponent = "builder_of single_menu" and E = "[]" and h = full_host,
        OF a b c1 d1]
  note two = menu_wrapper_appends
      [where menuComponent = "builder_of list_menu" and E = "[(utf16 ''m1'', utf16 ''Hello'')]"
         and t = "utf16 ''Hello''" and h = full_host,
        OF a b c2 d2]
  note none = menu_wrapper_appends
      [where menuComponent = "builder_of childless_menu"
         and E = "[(utf16 ''m1'', utf16 ''Hello'')]" and h = full_host,
        OF a b c3 d3]
  have r1: "menu_wrapper full_host [] (builder_of single_menu) (Some (menu_props_of m1))
       = Some \<lparr>props = Some \<lparr>children = Array
           [Elem 0,
            Btn \<lparr>button_id = ''edit-locally'', label = ''Edit Locally'',
                 icon = HObj [(''name'', HObj [])], destructive = None,
                 action = EditAction m1\<rparr>]\<rparr>\<rparr>"
    using one e1 k by (simp add: g single_menu_def)
  have r2: "menu_wrapper full_host [(utf16 ''m1'', utf16 ''Hello'')] (builder_of list_menu)
        (Some (menu_props_of m1))
       = Some \<lparr>props = Some \<lparr>children = Array
           [Elem 0, Elem 1,
            Btn \<lparr>button_id = ''edit-locally'', label = ''Edit Local Copy'',
                 icon = HObj [(''name'', HObj [])], destructive = None,
                 action = EditAction m1\<rparr>,
            Btn \<lparr>button_id = ''remove-local-edit'', label = ''Remove Local Edit'',
                 icon = HObj [(''name'', HObj [])], destructive = Some True,
                 action = RemoveAction m1\<rparr>]\<rparr>\<rparr>"
    using two e2 f by (simp add: g list_menu_def)
  have r3: "menu_wrapper full_host [(utf16 ''m1'', utf16 ''Hello'')] (builder_of childless_menu)
        (Some (menu_props_of m1)) = Some childless_menu"
    using none by simp
  show ?thesis
    using a b e1 k r1 e2 r2 r3 by (intro conjI) assumption+
qed

text \<open>
  C1 as stated fails when the original menu has no children: the message is another
  user's and has no override, and the wrapper returns the menu without any action added.
\<close>

theorem menu_wrapper_childless_counterexample:
  "message (menu_props_of m1) = Some m1
   \<and> author_id m1 \<noteq> currentUserId (menu_props_of m1)
   \<and> lookup_edit [] (msg_id m1) = Plain Undefined
   \<and> menu_wrapper full_host [] (builder_of childless_menu) (Some (menu_props_of m1))
       = Some childless_menu
   \<and> props childless_menu = Some \<lparr>children = Single (Prim Undefined)\<rparr>"
  by (simp add: menu_wrapper_def Let_def menu_props_of_def m1_def author_id_def lookup_edit_def
      object_prototype_keys_def builder_of_def childless_menu_def utf16_def)

section \<open>Properties of the lifecycle\<close>

lemma unpatched_onUnload: "unpatched (onUnload s) = unpatched s @ stored_handles s"
  by (simp add: onUnload_def call_handle_def stored_handles_def Let_def split: option.splits)

lemma handles_onUnload: "unpatchRender (onUnload s) = None \<and> unpatchContextMenu (onUnload s) = None"
  by (simp add: onUnload_def call_handle_def Let_def split: option.splits)

lemma global_onUnload:
  "map_of (global (onUnload s)) ''showLocalEdits'' = None
   \<and> map_of (global (onUnload s)) ''clearAllEdits'' = None"
  by (simp add: onUnload_def call_handle_def Let_def delete_conv' split: option.splits)

text \<open>
  C9. Deactivation calls each undo handle the state holds once, in order, and sets both
  handle variables to \<open>null\<close>, so that a second deactivation calls none. After
  deactivation the store is empty, its count is 0, and a call of either debug function
  throws, since the property is no longer on \<open>global\<close>. This holds from every state, and so
  after an activation that installed only some of the hooks.
\<close>

theorem onUnload_teardown:
  "unpatched (onUnload s) = unpatched s @ stored_handles s
   \<and> unpatchRender (onUnload s) = None
   \<and> unpatchContextMenu (onUnload s) = None
   \<and> unpatched (onUnload (onUnload s)) = unpatched (onUnload s)
   \<and> messageEdits (onUnload s) = []
   \<and> edit_count (messageEdits (onUnload s)) = 0
   \<and> invoke_global ''showLocalEdits'' (onUnload s) = Inl TypeError
   \<and> invoke_global ''clearAllEdits'' (onUnload s) = Inl TypeError"
proof -
  have twice: "unpatched (onUnload (onUnload s)) = unpatched (onUnload s)"
    using handles_onUnload [of s]
    by (simp add: unpatched_onUnload [of "onUnload s"] stored_handles_def)
  show ?thesis
    using twice global_onUnload [of s] handles_onUnload [of s]
    by (simp add: unpatched_onUnload messageEdits_onUnload edit_count_def invoke_global_def)
qed

lemma onLoad_full:
  "onLoad full_host initial =
     \<lparr>messageEdits = [],
      unpatchRender = Some (Unpatch ''render'' (HObj [])),
      unpatchContextMenu = Some (Unpatch ''openContextMenuLazy''
        (HObj [(''openContextMenuLazy'', HObj []), (''closeContextMenu'', HObj [])])),
      global = [(''showLocalEdits'', ShowLocalEdits), (''clearAllEdits'', ClearAllEdits)],
      patches = [Unpatch ''render'' (HObj []),
                 Unpatch ''openContextMenuLazy''
                   (HObj [(''openContextMenuLazy'', HObj []), (''closeContextMenu'', HObj [])])],
      unpatched = []\<rparr>"
  by (simp add: onLoad_def onLoad_try_def install_render_def install_menu_def
      find_MessageContent_def register_debug_def full_host_def before_def initial_def Let_def)

lemma onLoad_menuless:
  "onLoad menuless_host initial =
     initial\<lparr>unpatchRender := Some (Unpatch ''render'' (HObj [])),
             patches := [Unpatch ''render'' (HObj [])]\<rparr>"
  by (simp add: onLoad_def onLoad_try_def install_render_def install_menu_def find_MessageContent_def
      menuless_host_def before_def initial_def Let_def)

theorem onUnload_teardown_witness:
  "unpatched (onUnload (onLoad full_host initial))
     = [Unpatch ''render'' (HObj []),
        Unpatch ''openContextMenuLazy''
          (HObj [(''openContextMenuLazy'', HObj []), (''closeContextMenu'', HObj [])])]
   \<and> unpatched (onUnload (onUnload (onLoad full_host initial)))
     = [Unpatch ''render'' (HObj []),
        Unpatch ''openContextMenuLazy''
          (HObj [(''openContextMenuLazy'', HObj []), (''closeContextMenu'', HObj [])])]
   \<and> invoke_global ''showLocalEdits'' (onLoad full_host initial) = Inr (onLoad full_host initial)
   \<and> invoke_global ''showLocalEdits'' (onUnload (onLoad full_host initial)) = Inl TypeError
   \<and> unpatched (onUnload (onLoad menuless_host initial)) = [Unpatch ''render'' (HObj [])]
   \<and> unpatched (onUnload (onUnload (onLoad menuless_host initial)))
     = [Unpatch ''render'' (HObj [])]"
proof -
  have a: "stored_handles (onLoad full_host initial)
     = [Unpatch ''render'' (HObj []),
        Unpatch ''openContextMenuLazy''
          (HObj [(''openContextMenuLazy'', HObj []), (''closeContextMenu'', HObj [])])]"
    by (simp add: onLoad_full stored_handles_def)
  have b: "unpatched (onLoad full_host initial) = []"
    by (simp add: onLoad_full)
  have c: "invoke_global ''showLocalEdits'' (onLoad full_host initial) = Inr (onLoad full_host initial)"
    by (simp add: onLoad_full invoke_global_def showLocalEdits_def)
  have d: "stored_handles (onLoad menuless_host initial) = [Unpatch ''render'' (HObj [])]"
    by (simp add: onLoad_menuless stored_handles_def) (simp add: initial_def)
  have e: "unpatched (onLoad menuless_host initial) = []"
    by (simp add: onLoad_menuless) (simp add: initial_def)
  show ?thesis
    using a b c d e onUnload_teardown [of "onLoad full_host initial"]
      onUnload_teardown [of "onLoad menuless_host initial"]
    by simp
qed

lemma onLoad_menu_nullish:
  "nullish (findByProps h [''openContextMenuLazy'', ''closeContextMenu''])
   \<Longrightarrow> onLoad h s = install_render h s"
  by (simp add: onLoad_def onLoad_try_def install_menu_def Let_def)

lemma onLoad_menu_found:
  "\<not> nullish (findByProps h [''openContextMenuLazy'', ''closeContextMenu''])
   \<Longrightarrow> map_of (global (onLoad h s)) ''showLocalEdits'' = Some ShowLocalEdits
     \<and> map_of (global (onLoad h s)) ''clearAllEdits'' = Some ClearAllEdits"
  by (simp add: onLoad_def onLoad_try_def install_menu_def register_debug_def before_def Let_def
      update_conv' split: prod.splits)

text \<open>
  C2. The claim is that a failed lookup of the menu subsystem skips only the menu
  interceptor. In the code the lookup's result is destructured before it is tested, so
  with a host in which no module has both menu properties the activation stops at line 40:
  the render hook is installed, and neither debug function is registered.
\<close>

theorem onLoad_menu_lookup_fails:
  "nullish (findByProps menuless_host [''openContextMenuLazy'', ''closeContextMenu''])
   \<and> onLoad_try menuless_host initial
       = Inl (TypeError, initial\<lparr>unpatchRender := Some (Unpatch ''render'' (HObj [])),
                                  patches := [Unpatch ''render'' (HObj [])]\<rparr>)
   \<and> unpatchRender (onLoad menuless_host initial) = Some (Unpatch ''render'' (HObj []))
   \<and> global (onLoad menuless_host initial) = []
   \<and> invoke_global ''showLocalEdits'' (onLoad menuless_host initial) = Inl TypeError
   \<and> invoke_global ''clearAllEdits'' (onLoad menuless_host initial) = Inl TypeError"
proof -
  have "onLoad_try menuless_host initial
       = Inl (TypeError, initial\<lparr>unpatchRender := Some (Unpatch ''render'' (HObj [])),
                                  patches := [Unpatch ''render'' (HObj [])]\<rparr>)"
    by (simp add: onLoad_try_def install_render_def install_menu_def find_MessageContent_def
        menuless_host_def before_def initial_def Let_def)
  then show ?thesis
    by (simp add: onLoad_menuless invoke_global_def) (simp add: menuless_host_def initial_def)
qed

end
